theory Spec2Isabelle
  imports Main "HOL-Library.Sublist"
begin

section \<open>The world around the orchestrator\<close>

text \<open>
  The program is \<^verbatim>\<open>inkml_converter_wrapper.py\<close>: a class \<^verbatim>\<open>InkMLConverter\<close> that shells
  out to an external converter and manages file paths around the call. Its only effects
  are on the file system, on the standard output (\<^verbatim>\<open>print\<close>) and through the
  subprocess.

  The file system is a finite table from path strings, as they are passed to the operating
  system, to nodes. A regular file carries its content. Not modelled: symbolic links, the
  current directory (a relative and an absolute spelling of one file are two keys),
  permissions, devices. The strings \<^verbatim>\<open>.\<close>, \<^verbatim>\<open>/\<close> and \<^verbatim>\<open>//\<close> (the current directory and the
  roots) always name a directory.
\<close>

datatype node = File string | Dir

type_synonym fs = "(string \<times> node) list"

definition lookup :: "fs \<Rightarrow> string \<Rightarrow> node option" where
  "lookup s p = (if p = ''.'' \<or> p = ''/'' \<or> p = ''//'' then Some Dir else map_of s p)"

definition unlink :: "fs \<Rightarrow> string \<Rightarrow> fs" where
  "unlink s p = filter (\<lambda>kv. fst kv \<noteq> p) s"

definition put :: "fs \<Rightarrow> string \<Rightarrow> node \<Rightarrow> fs" where
  "put s p n = (p, n) # unlink s p"

definition is_file :: "fs \<Rightarrow> string \<Rightarrow> bool" where
  "is_file s p = (case lookup s p of Some (File c) \<Rightarrow> True | _ \<Rightarrow> False)"

definition is_dir :: "fs \<Rightarrow> string \<Rightarrow> bool" where
  "is_dir s p = (lookup s p = Some Dir)"

text \<open>\<^verbatim>\<open>os.path.exists\<close>.\<close>

definition os_path_exists :: "fs \<Rightarrow> string \<Rightarrow> bool" where
  "os_path_exists s p = (lookup s p \<noteq> None)"

text \<open>
  The exceptions the program raises or lets through, each with its message
  (\<^verbatim>\<open>str(e)\<close>). The program raises \<^verbatim>\<open>FileNotFoundError\<close> (the spec's NotFound) and a plain
  \<^verbatim>\<open>Exception\<close> whose message starts with \<^verbatim>\<open>Conversion failed: \<close> (the spec's
  ConversionFailed); the others come from the operating system and from pathlib.
\<close>

datatype error =
    FileNotFoundError string
  | FileExistsError string
  | NotADirectoryError string
  | IsADirectoryError string
  | OSError string
  | ValueError string
  | UnicodeEncodeError string
  | Exception string

text \<open>
  A file name inside a message of the operating system, as \<^verbatim>\<open>repr\<close> writes a text that
  holds no quote and needs no escape.
\<close>

definition quoted :: "string \<Rightarrow> string" where
  "quoted p = CHR 0x27 # p @ [CHR 0x27]"

fun str_error :: "error \<Rightarrow> string" where
  "str_error (FileNotFoundError m) = m"
| "str_error (FileExistsError m) = m"
| "str_error (NotADirectoryError m) = m"
| "str_error (IsADirectoryError m) = m"
| "str_error (OSError m) = m"
| "str_error (ValueError m) = m"
| "str_error (UnicodeEncodeError m) = m"
| "str_error (Exception m) = m"

text \<open>
  What \<^verbatim>\<open>subprocess.run(..., capture_output=True, text=True)\<close> does before \<^verbatim>\<open>check\<close> is
  applied: it gives a completed process with its return code, captured standard output
  and captured standard error, or it raises an exception of its own (the program could
  not be started because there is no \<^verbatim>\<open>npx\<close> on the search path, the output could not
  be decoded).
\<close>

datatype completed = CompletedProcess int string string | RunRaised error

text \<open>
  The environment is everything the program does not decide itself: the external command
  runner (a black box that may change the file system in any way), the directory walk
  behind \<^verbatim>\<open>Path.rglob\<close> (the order of discovery is the operating system's; the walk is
  taken as a whole when the loop starts, where Python's generator walks on while the
  loop runs), the temporary directory and random names of \<^verbatim>\<open>tempfile\<close>, and which texts
  the locale's encoding can encode when a file is written in text mode.
\<close>

record env =
  run :: "string list \<Rightarrow> fs \<Rightarrow> completed \<times> fs"
  rglob :: "fs \<Rightarrow> string \<Rightarrow> string \<Rightarrow> string list"
  gettempdir :: string
  candidate_names :: "string list"
  encodable :: "string \<Rightarrow> bool"

section \<open>String operations of Python used by the program\<close>

text \<open>\<^verbatim>\<open>s.rsplit(sep, 1)\<close>: split once, at the last occurrence of the separator.\<close>

definition rsplit1 :: "char \<Rightarrow> string \<Rightarrow> string list" where
  "rsplit1 sep s =
     (if sep \<in> set s
      then [rev (tl (dropWhile (\<lambda>c. c \<noteq> sep) (rev s))), rev (takeWhile (\<lambda>c. c \<noteq> sep) (rev s))]
      else [s])"

text \<open>\<^verbatim>\<open>s.rfind(c)\<close>: the index of the last occurrence, or -1.\<close>

definition rfind :: "char \<Rightarrow> string \<Rightarrow> int" where
  "rfind c s =
     (if c \<in> set s then int (length s) - 1 - int (length (takeWhile (\<lambda>x. x \<noteq> c) (rev s)))
      else - 1)"

text \<open>\<^verbatim>\<open>s.split(sep)\<close> and \<^verbatim>\<open>sep.join(xs)\<close>.\<close>

fun str_split :: "char \<Rightarrow> string \<Rightarrow> string list" where
  "str_split sep [] = [[]]"
| "str_split sep (c # cs) =
     (if c = sep then [] # str_split sep cs
      else (case str_split sep cs of w # ws \<Rightarrow> (c # w) # ws | [] \<Rightarrow> [[c]]))"

fun str_join :: "string \<Rightarrow> string list \<Rightarrow> string" where
  "str_join sep [] = []"
| "str_join sep [x] = x"
| "str_join sep (x # y # ys) = x @ sep @ str_join sep (y # ys)"

section \<open>Paths: \<^verbatim>\<open>os.path\<close> and \<^verbatim>\<open>pathlib\<close> on POSIX\<close>

text \<open>\<^verbatim>\<open>os.path.basename\<close>, \<^verbatim>\<open>os.path.dirname\<close> and \<^verbatim>\<open>os.path.join\<close> of two arguments.\<close>

definition os_path_basename :: "string \<Rightarrow> string" where
  "os_path_basename p = rev (takeWhile (\<lambda>c. c \<noteq> CHR ''/'') (rev p))"

definition os_path_dirname :: "string \<Rightarrow> string" where
  "os_path_dirname p =
     (let head = rev (dropWhile (\<lambda>c. c \<noteq> CHR ''/'') (rev p))
      in if head \<noteq> [] \<and> head \<noteq> replicate (length head) CHR ''/''
         then rev (dropWhile (\<lambda>c. c = CHR ''/'') (rev head)) else head)"

definition os_path_join :: "string \<Rightarrow> string \<Rightarrow> string" where
  "os_path_join a b =
     (if take 1 b = ''/'' then b
      else if a = [] \<or> last a = CHR ''/'' then a @ b
      else a @ ''/'' @ b)"

text \<open>The directory an entry lives in; a bare name lives in the current directory.\<close>

definition parent_dir :: "string \<Rightarrow> string" where
  "parent_dir p = (let d = os_path_dirname p in if d = [] then ''.'' else d)"

text \<open>
  A \<^verbatim>\<open>pathlib\<close> path after parsing: the root (\<^verbatim>\<open>/\<close>, \<^verbatim>\<open>//\<close> or empty) and the components
  after it. Parsing drops empty components and \<^verbatim>\<open>.\<close>; it keeps \<^verbatim>\<open>..\<close>. Two paths are equal
  when root and components are. The suffix of a name starts at its last dot, unless that
  dot is the first or the last character of the name (Python up to 3.13; for a name that
  ends in \<^verbatim>\<open>.txt\<close> later versions agree).
\<close>

record PurePath =
  root :: string
  tail :: "string list"

definition splitroot :: "string \<Rightarrow> string \<times> string" where
  "splitroot p =
     (if take 1 p \<noteq> ''/'' then ([], p)
      else if take 1 (drop 1 p) \<noteq> ''/'' \<or> take 1 (drop 2 p) = ''/'' then (''/'', drop 1 p)
      else (''//'', drop 2 p))"

definition Path :: "string \<Rightarrow> PurePath" where
  "Path p =
     \<lparr>root = fst (splitroot p),
      tail = filter (\<lambda>x. x \<noteq> [] \<and> x \<noteq> ''.'') (str_split CHR ''/'' (snd (splitroot p)))\<rparr>"

definition str :: "PurePath \<Rightarrow> string" where
  "str p = (if root p = [] \<and> tail p = [] then ''.'' else root p @ str_join ''/'' (tail p))"


definition name :: "PurePath \<Rightarrow> string" where
  "name p = (if tail p = [] then [] else last (tail p))"

definition path_suffix :: "PurePath \<Rightarrow> string" where
  "path_suffix p =
     (let nm = name p; i = rfind CHR ''.'' nm
      in if 0 < i \<and> i < int (length nm) - 1 then drop (nat i) nm else [])"

definition with_suffix :: "PurePath \<Rightarrow> string \<Rightarrow> error + PurePath" where
  "with_suffix p sfx =
     (if CHR ''/'' \<in> set sfx then Inl (ValueError (''Invalid suffix '' @ quoted sfx))
      else if (sfx \<noteq> [] \<and> take 1 sfx \<noteq> ''.'') \<or> sfx = ''.''
        then Inl (ValueError (''Invalid suffix '' @ quoted sfx))
      else if name p = []
        then Inl (ValueError (''PosixPath('' @ quoted (str p) @ '') has an empty name''))
      else
        let old_suffix = path_suffix p;
            nm = (if old_suffix = [] then name p @ sfx
                  else take (length (name p) - length old_suffix) (name p) @ sfx)
        in Inr (p\<lparr>tail := butlast (tail p) @ [nm]\<rparr>))"

text \<open>\<^verbatim>\<open>self / key\<close>: an absolute key replaces the path, a relative one is appended.\<close>

definition truediv :: "PurePath \<Rightarrow> string \<Rightarrow> PurePath" where
  "truediv p key =
     (let k = Path key
      in if root k \<noteq> [] then k else \<lparr>root = root p, tail = tail p @ tail k\<rparr>)"

text \<open>\<^verbatim>\<open>Path.exists\<close>.\<close>

definition exists :: "fs \<Rightarrow> PurePath \<Rightarrow> bool" where
  "exists s p = os_path_exists s (str p)"

section \<open>Operating-system calls\<close>

text \<open>
  \<^verbatim>\<open>Path.mkdir(parents=True, exist_ok=True)\<close>, from its documented behaviour: the
  directory and every missing ancestor are created, an existing directory is left alone,
  and a regular file at the path or at an ancestor is an error. \<open>lineage\<close> lists the
  path's ancestors below the root or the current directory, the outermost first, and
  the path itself last.
\<close>

definition lineage :: "PurePath \<Rightarrow> PurePath list" where
  "lineage p = map (\<lambda>k. p\<lparr>tail := take k (tail p)\<rparr>) [1..<Suc (length (tail p))]"

fun mkdir_chain :: "fs \<Rightarrow> string list \<Rightarrow> error + fs" where
  "mkdir_chain s [] = Inr s"
| "mkdir_chain s (d # ds) =
     (case lookup s d of
        Some (File c) \<Rightarrow>
          Inl (if ds = [] then FileExistsError (''[Errno 17] File exists: '' @ quoted d)
               else NotADirectoryError (''[Errno 20] Not a directory: '' @ quoted (last (d # ds))))
      | Some Dir \<Rightarrow> mkdir_chain s ds
      | None \<Rightarrow> mkdir_chain (put s d Dir) ds)"

definition mkdir :: "fs \<Rightarrow> PurePath \<Rightarrow> error + fs" where
  "mkdir s p = mkdir_chain s (map str (lineage p))"

text \<open>
  \<^verbatim>\<open>os.rename(src, dst)\<close>, after rename(2): the source must exist, the target's directory
  must be a directory; a file replaces a file, a directory replaces an empty directory and
  takes everything below it along.
\<close>

definition below :: "string \<Rightarrow> string \<Rightarrow> bool" where
  "below d k = prefix (d @ ''/'') k"

definition move_tree :: "fs \<Rightarrow> string \<Rightarrow> string \<Rightarrow> fs" where
  "move_tree s src dst =
     map (\<lambda>kv. if fst kv = src then (dst, snd kv)
               else if below src (fst kv) then (dst @ drop (length src) (fst kv), snd kv)
               else kv)
         (filter (\<lambda>kv. fst kv \<noteq> dst \<and> \<not> below dst (fst kv)) s)"

definition rename_msg :: "string \<Rightarrow> string \<Rightarrow> string \<Rightarrow> string" where
  "rename_msg what src dst = what @ '': '' @ quoted src @ '' -> '' @ quoted dst"

definition os_rename :: "fs \<Rightarrow> string \<Rightarrow> string \<Rightarrow> error + fs" where
  "os_rename s src dst =
     (case lookup s src of
        None \<Rightarrow> Inl (FileNotFoundError (rename_msg ''[Errno 2] No such file or directory'' src dst))
      | Some n \<Rightarrow>
          (case lookup s (parent_dir dst) of
             None \<Rightarrow>
               Inl (FileNotFoundError (rename_msg ''[Errno 2] No such file or directory'' src dst))
           | Some (File c) \<Rightarrow>
               Inl (NotADirectoryError (rename_msg ''[Errno 20] Not a directory'' src dst))
           | Some Dir \<Rightarrow>
               if src = dst then Inr s
               else
                 (case n of
                    File c \<Rightarrow>
                      (if lookup s dst = Some Dir
                       then Inl (IsADirectoryError (rename_msg ''[Errno 21] Is a directory'' src dst))
                       else Inr (put (unlink s src) dst (File c)))
                  | Dir \<Rightarrow>
                      (if src \<in> {''.'', ''/'', ''//''} \<or> dst \<in> {''.'', ''/'', ''//''}
                       then Inl (OSError (rename_msg ''[Errno 16] Device or resource busy'' src dst))
                       else if below src dst
                       then Inl (OSError (rename_msg ''[Errno 22] Invalid argument'' src dst))
                       else if is_file s dst
                       then Inl (NotADirectoryError (rename_msg ''[Errno 20] Not a directory'' src dst))
                       else if list_ex (\<lambda>kv. below dst (fst kv)) s
                       then Inl (OSError (rename_msg ''[Errno 39] Directory not empty'' src dst))
                       else Inr (move_tree s src dst)))))"

text \<open>\<^verbatim>\<open>os.remove\<close>.\<close>

definition os_remove :: "fs \<Rightarrow> string \<Rightarrow> error + fs" where
  "os_remove s p =
     (case lookup s p of
        None \<Rightarrow> Inl (FileNotFoundError (''[Errno 2] No such file or directory: '' @ quoted p))
      | Some Dir \<Rightarrow> Inl (IsADirectoryError (''[Errno 21] Is a directory: '' @ quoted p))
      | Some (File c) \<Rightarrow> Inr (unlink s p))"

text \<open>
  The \<^verbatim>\<open>with\<close> block of lines 62 to 64:
  \<^verbatim>\<open>tempfile.NamedTemporaryFile(mode='w', suffix='.txt', delete=False)\<close>, the write and the
  close. The name is \<^verbatim>\<open>tmp\<close>, a random string and the suffix, in the temporary directory;
  a name that exists is skipped and the next random string is tried. The random strings
  are made of the letters of \<open>characters\<close>. The file is created empty; a text that the
  encoding rejects makes \<^verbatim>\<open>write\<close> raise, and with \<^verbatim>\<open>delete=False\<close> the close leaves the
  file where it is.
\<close>

definition characters :: string where
  "characters = ''abcdefghijklmnopqrstuvwxyz0123456789_''"

fun mkstemp :: "fs \<Rightarrow> string \<Rightarrow> string list \<Rightarrow> error + string" where
  "mkstemp s dir [] = Inl (FileExistsError ''[Errno 17] No usable temporary file name found'')"
| "mkstemp s dir (n # ns) =
     (let file = os_path_join dir (''tmp'' @ n @ ''.txt'')
      in if os_path_exists s file then mkstemp s dir ns else Inr file)"

definition NamedTemporaryFile :: "env \<Rightarrow> fs \<Rightarrow> string \<Rightarrow> (error + string) \<times> fs" where
  "NamedTemporaryFile e s txt_content =
     (if \<not> is_dir s (gettempdir e)
      then (Inl (FileNotFoundError
               (''[Errno 2] No such file or directory: '' @ quoted (gettempdir e))), s)
      else
        (case mkstemp s (gettempdir e) (candidate_names e) of
           Inl err \<Rightarrow> (Inl err, s)
         | Inr temp_file_path \<Rightarrow>
             if encodable e txt_content
             then (Inr temp_file_path, put s temp_file_path (File txt_content))
             else (Inl (UnicodeEncodeError ''codec can't encode characters''),
                   put s temp_file_path (File []))))"

section \<open>The orchestrator\<close>

record InkMLConverter =
  converter_script :: string


text \<open>
  \<^verbatim>\<open>convert_txt_to_inkml\<close> (lines 27 to 48). \<^verbatim>\<open>check=True\<close> turns a nonzero return code
  into \<^verbatim>\<open>CalledProcessError\<close>, which the \<^verbatim>\<open>except\<close> clause turns into
  \<^verbatim>\<open>Exception(f"Conversion failed: {e.stderr}")\<close>. An exception of another class is not
  caught.
\<close>

definition convert_txt_to_inkml ::
    "env \<Rightarrow> InkMLConverter \<Rightarrow> fs \<Rightarrow> string \<Rightarrow> (error + string) \<times> fs" where
  "convert_txt_to_inkml e self s txt_file_path =
     (case run e [''npx'', ''tsx'', converter_script self, txt_file_path] s of
        (RunRaised err, s') \<Rightarrow> (Inl err, s')
      | (CompletedProcess returncode out stderr, s') \<Rightarrow>
          if returncode \<noteq> 0 then (Inl (Exception (''Conversion failed: '' @ stderr)), s')
          else
            let inkml_file_path = hd (rsplit1 CHR ''.'' txt_file_path) @ ''.inkml''
            in (Inr inkml_file_path, s'))"

text \<open>
  \<^verbatim>\<open>convert_from_string\<close> (lines 50 to 80): the body of the \<^verbatim>\<open>try\<close>, the \<^verbatim>\<open>finally\<close>
  clause, and the method. An exception raised inside \<^verbatim>\<open>finally\<close> replaces the outcome of
  the \<^verbatim>\<open>try\<close> body. \<^verbatim>\<open>if output_filename:\<close> is false for \<^verbatim>\<open>None\<close> and for the empty string.
\<close>

definition convert_from_string_try ::
    "env \<Rightarrow> InkMLConverter \<Rightarrow> fs \<Rightarrow> string \<Rightarrow> string option \<Rightarrow> (error + string) \<times> fs" where
  "convert_from_string_try e self s temp_file_path output_filename =
     (case convert_txt_to_inkml e self s temp_file_path of
        (Inl err, s1) \<Rightarrow> (Inl err, s1)
      | (Inr inkml_path, s1) \<Rightarrow>
          (case output_filename of
             None \<Rightarrow> (Inr inkml_path, s1)
           | Some label \<Rightarrow>
               if label = [] then (Inr inkml_path, s1)
               else
                 let new_inkml_path =
                       hd (rsplit1 CHR ''.'' temp_file_path) @ ''_'' @ label @ ''.inkml''
                 in (case os_rename s1 inkml_path new_inkml_path of
                       Inl err \<Rightarrow> (Inl err, s1)
                     | Inr s2 \<Rightarrow> (Inr new_inkml_path, s2))))"

definition convert_from_string_finally ::
    "string \<Rightarrow> (error + string) \<times> fs \<Rightarrow> (error + string) \<times> fs" where
  "convert_from_string_finally temp_file_path outcome =
     (let s = snd outcome
      in if os_path_exists s temp_file_path
         then (case os_remove s temp_file_path of
                 Inl err \<Rightarrow> (Inl err, s)
               | Inr s' \<Rightarrow> (fst outcome, s'))
         else outcome)"

definition convert_from_string ::
    "env \<Rightarrow> InkMLConverter \<Rightarrow> fs \<Rightarrow> string \<Rightarrow> string option \<Rightarrow> (error + string) \<times> fs" where
  "convert_from_string e self s txt_content output_filename =
     (case NamedTemporaryFile e s txt_content of
        (Inl err, s0) \<Rightarrow> (Inl err, s0)
      | (Inr temp_file_path, s0) \<Rightarrow>
          convert_from_string_finally temp_file_path
            (convert_from_string_try e self s0 temp_file_path output_filename))"

text \<open>
  \<^verbatim>\<open>batch_convert_directory\<close> (lines 82 to 114). \<open>batch_try\<close> is the body of the \<^verbatim>\<open>try\<close>
  inside the loop for one discovered file; \<open>batch_loop\<close> is the \<^verbatim>\<open>for\<close> loop, carrying
  the list \<^verbatim>\<open>inkml_files\<close>, the lines printed so far and the file system. The
  \<^verbatim>\<open>except Exception\<close> clause catches every error of the body and prints one line.
\<close>

definition batch_try ::
    "env \<Rightarrow> InkMLConverter \<Rightarrow> PurePath \<Rightarrow> PurePath \<Rightarrow> fs \<Rightarrow> PurePath \<Rightarrow> (error + string) \<times> fs" where
  "batch_try e self input_path output_path s txt_file =
     (case convert_txt_to_inkml e self s (str txt_file) of
        (Inl err, s1) \<Rightarrow> (Inl err, s1)
      | (Inr inkml_file, s1) \<Rightarrow>
          if output_path \<noteq> input_path then
            (case with_suffix txt_file ''.inkml'' of
               Inl err \<Rightarrow> (Inl err, s1)
             | Inr renamed \<Rightarrow>
                 let final_path = truediv output_path (name renamed)
                 in (case os_rename s1 inkml_file (str final_path) of
                       Inl err \<Rightarrow> (Inl err, s1)
                     | Inr s2 \<Rightarrow> (Inr (str final_path), s2)))
          else (Inr inkml_file, s1))"

definition failure_line :: "PurePath \<Rightarrow> error \<Rightarrow> string" where
  "failure_line txt_file err = ''Failed to convert '' @ str txt_file @ '': '' @ str_error err"

fun batch_loop ::
    "env \<Rightarrow> InkMLConverter \<Rightarrow> PurePath \<Rightarrow> PurePath \<Rightarrow> PurePath list
       \<Rightarrow> string list \<times> string list \<times> fs \<Rightarrow> string list \<times> string list \<times> fs" where
  "batch_loop e self input_path output_path [] acc = acc"
| "batch_loop e self input_path output_path (txt_file # rest) (inkml_files, printed, s) =
     (case batch_try e self input_path output_path s txt_file of
        (Inr inkml_file, s') \<Rightarrow>
          batch_loop e self input_path output_path rest (inkml_files @ [inkml_file], printed, s')
      | (Inl err, s') \<Rightarrow>
          batch_loop e self input_path output_path rest
            (inkml_files, printed @ [failure_line txt_file err], s'))"

definition batch_convert_directory ::
    "env \<Rightarrow> InkMLConverter \<Rightarrow> fs \<Rightarrow> string \<Rightarrow> string option
       \<Rightarrow> (error + string list) \<times> string list \<times> fs" where
  "batch_convert_directory e self s input_dir output_dir =
     (let input_path = Path input_dir;
          output_path = (case output_dir of
                           None \<Rightarrow> input_path
                         | Some d \<Rightarrow> if d \<noteq> [] then Path d else input_path)
      in case mkdir s output_path of
           Inl err \<Rightarrow> (Inl err, [], s)
         | Inr s1 \<Rightarrow>
             (case batch_loop e self input_path output_path
                     (map Path (rglob e s1 (str input_path) ''*.txt'')) ([], [], s1) of
                (inkml_files, printed, s2) \<Rightarrow> (Inr inkml_files, printed, s2)))"

section \<open>Concrete environments\<close>

text \<open>
  Two command runners on which the theorems below are exercised. The first behaves as the
  converter is expected to: it reads the file named by its last argument and writes a
  sibling with the extension \<^verbatim>\<open>.inkml\<close>, or exits with status 1 and a diagnostic when there
  is no such file; its locale encodes ASCII only. The second exits with status 0 and
  writes nothing.
\<close>

definition writing_env :: env where
  "writing_env =
     \<lparr>run = (\<lambda>args s.
              if is_file s (last args)
              then (CompletedProcess 0 ''ok'' [],
                    put s (hd (rsplit1 CHR ''.'' (last args)) @ ''.inkml'') (File ''<ink/>''))
              else (CompletedProcess 1 [] ''cannot read input'', s)),
      rglob = (\<lambda>s d pat. [''in/a.txt'', ''in/b.txt'', ''in/sub/c.txt'']),
      gettempdir = ''/tmp'',
      candidate_names = [''k3x_9qzb'', ''abcd1234''],
      encodable = (\<lambda>text. list_all (\<lambda>c. of_char c < (128::nat)) text)\<rparr>"

definition silent_env :: env where
  "silent_env =
     \<lparr>run = (\<lambda>args s. (CompletedProcess 0 [] [], s)),
      rglob = (\<lambda>s d pat. []),
      gettempdir = ''/tmp'',
      candidate_names = [''abcd1234''],
      encodable = (\<lambda>text. True)\<rparr>"

definition a_converter :: InkMLConverter where
  "a_converter = \<lparr>converter_script = ''/opt/app/convert_txt_to_inkml.ts''\<rparr>"


section \<open>Outcomes of a batch\<close>






text \<open>A walk that finds two files of the same name in different directories.\<close>

definition twin_env :: env where
  "twin_env = writing_env\<lparr>rglob := (\<lambda>s d pat. [''in/x.txt'', ''in/sub/x.txt''])\<rparr>"

definition twin_tree :: fs where
  "twin_tree =
     [(''in'', Dir), (''in/x.txt'', File ''1 2''), (''in/sub'', Dir),
      (''in/sub/x.txt'', File ''3 4''), (''out'', Dir)]"

section \<open>Facts about the string operations\<close>

lemma rsplit1_last_sep:
  assumes "sep \<notin> set ext"
  shows "rsplit1 sep (stem @ sep # ext) = [stem, ext]"
proof -
  have r: "rev (stem @ sep # ext) = rev ext @ sep # rev stem"
    by simp
  have d: "dropWhile (\<lambda>c. c \<noteq> sep) (rev ext @ sep # rev stem) = sep # rev stem"
    using assms by (auto simp: dropWhile_append3)
  have t: "takeWhile (\<lambda>c. c \<noteq> sep) (rev ext @ sep # rev stem) = rev ext"
    using assms by (auto simp: takeWhile_tail)
  show ?thesis
    unfolding rsplit1_def r d t by simp
qed

lemma rsplit1_no_sep: "sep \<notin> set s \<Longrightarrow> rsplit1 sep s = [s]"
  by (simp add: rsplit1_def)

lemmas fs_defs = lookup_def put_def unlink_def is_file_def is_dir_def os_path_exists_def

section \<open>Single-file conversion\<close>

text \<open>
  C1. A valid input path has a final extension segment: it reads \<open>stem @ ''.'' @ ext\<close>,
  where \<open>ext\<close> holds no dot, so that the dot and \<open>ext\<close> are its last segment (the
  extension of the file name when \<open>ext\<close> holds no slash either). When the converter exits
  with status 0, the path returned is the input path with that segment replaced by
  \<^verbatim>\<open>.inkml\<close>, and the file system is as the converter left it.
\<close>

theorem convert_txt_to_inkml_replaces_extension:
  assumes "CHR ''.'' \<notin> set ext"
    and "run e [''npx'', ''tsx'', converter_script self, stem @ ''.'' @ ext] s
           = (CompletedProcess 0 out err, s')"
  shows "convert_txt_to_inkml e self s (stem @ ''.'' @ ext) = (Inr (stem @ ''.inkml''), s')"
  using assms(2) rsplit1_last_sep [OF assms(1), of stem]
  by (simp add: convert_txt_to_inkml_def)

theorem convert_txt_to_inkml_replaces_extension_witness:
  "CHR ''.'' \<notin> set ''txt''
   \<and> run writing_env
        [''npx'', ''tsx'', converter_script a_converter, ''notes/page.1'' @ ''.'' @ ''txt'']
        [(''notes/page.1.txt'', File ''1 2'')]
       = (CompletedProcess 0 ''ok'' [],
          [(''notes/page.1.inkml'', File ''<ink/>''), (''notes/page.1.txt'', File ''1 2'')])
   \<and> convert_txt_to_inkml writing_env a_converter [(''notes/page.1.txt'', File ''1 2'')]
        (''notes/page.1'' @ ''.'' @ ''txt'')
       = (Inr (''notes/page.1'' @ ''.inkml''),
          [(''notes/page.1.inkml'', File ''<ink/>''), (''notes/page.1.txt'', File ''1 2'')])"
proof -
  have h1: "CHR ''.'' \<notin> set ''txt''"
    by simp
  have h3: "run writing_env
        [''npx'', ''tsx'', converter_script a_converter, ''notes/page.1'' @ ''.'' @ ''txt'']
        [(''notes/page.1.txt'', File ''1 2'')]
       = (CompletedProcess 0 ''ok'' [],
          [(''notes/page.1.inkml'', File ''<ink/>''), (''notes/page.1.txt'', File ''1 2'')])"
    by (simp add: writing_env_def a_converter_def fs_defs rsplit1_def)
  show ?thesis
    using h1 h3 convert_txt_to_inkml_replaces_extension [OF h1 h3] by simp
qed

text \<open>
  A path with no dot at all has no such segment and gets \<^verbatim>\<open>.inkml\<close> appended. When the
  last dot lies in a directory name, the segment replaced runs across the slash.
\<close>

lemma convert_txt_to_inkml_other_paths:
  "fst (convert_txt_to_inkml silent_env a_converter [] ''notes/page'') = Inr ''notes/page.inkml''"
  "fst (convert_txt_to_inkml silent_env a_converter [] ''notes.v2/page'') = Inr ''notes.inkml''"
  by (simp_all add: convert_txt_to_inkml_def silent_env_def rsplit1_def)



text \<open>
  C7. Single-file conversion does not check that the output file was produced: when the
  subprocess exits with status zero the returned path is the input string cut at its last
  dot with \<^verbatim>\<open>.inkml\<close> appended, whatever the command runner, the converter object and the
  file system are; two calls on the same input string return the same path.
\<close>

theorem convert_txt_to_inkml_unverified:
  assumes "fst (run e [''npx'', ''tsx'', converter_script self, p] s) = CompletedProcess 0 out err"
    and "fst (run e' [''npx'', ''tsx'', converter_script self', p] s') = CompletedProcess 0 out' err'"
  shows "fst (convert_txt_to_inkml e self s p) = Inr (hd (rsplit1 CHR ''.'' p) @ ''.inkml'')
       \<and> fst (convert_txt_to_inkml e' self' s' p) = fst (convert_txt_to_inkml e self s p)"
proof -
  obtain t where r:
    "run e [''npx'', ''tsx'', converter_script self, p] s = (CompletedProcess 0 out err, t)"
    using assms(1) by (cases "run e [''npx'', ''tsx'', converter_script self, p] s") simp
  obtain t' where r':
    "run e' [''npx'', ''tsx'', converter_script self', p] s' = (CompletedProcess 0 out' err', t')"
    using assms(2) by (cases "run e' [''npx'', ''tsx'', converter_script self', p] s'") simp
  show ?thesis
    by (simp add: convert_txt_to_inkml_def r r')
qed

text \<open>
  At the witness the first runner writes the output file and the second does not: the
  path returned is the same, and after the second call nothing exists at it.
\<close>

theorem convert_txt_to_inkml_unverified_witness:
  "fst (run writing_env [''npx'', ''tsx'', converter_script a_converter, ''a.txt'']
          [(''a.txt'', File ''1 2'')]) = CompletedProcess 0 ''ok'' []
   \<and> fst (run silent_env [''npx'', ''tsx'', converter_script a_converter, ''a.txt''] [])
       = CompletedProcess 0 [] []
   \<and> fst (convert_txt_to_inkml writing_env a_converter [(''a.txt'', File ''1 2'')] ''a.txt'')
       = Inr ''a.inkml''
   \<and> fst (convert_txt_to_inkml silent_env a_converter [] ''a.txt'') = Inr ''a.inkml''
   \<and> \<not> os_path_exists (snd (convert_txt_to_inkml silent_env a_converter [] ''a.txt'')) ''a.inkml''"
proof -
  have w: "fst (run writing_env [''npx'', ''tsx'', converter_script a_converter, ''a.txt'']
          [(''a.txt'', File ''1 2'')]) = CompletedProcess 0 ''ok'' []"
    by (simp add: writing_env_def fs_defs)
  have q: "fst (run silent_env [''npx'', ''tsx'', converter_script a_converter, ''a.txt''] [])
       = CompletedProcess 0 [] []"
    by (simp add: silent_env_def)
  have n: "snd (convert_txt_to_inkml silent_env a_converter [] ''a.txt'') = []"
    by (simp add: convert_txt_to_inkml_def silent_env_def)
  have c: "hd (rsplit1 CHR ''.'' ''a.txt'') @ ''.inkml'' = ''a.inkml''"
    by (simp add: rsplit1_def)
  show ?thesis
    using w q convert_txt_to_inkml_unverified [OF w q]
    by (simp add: n c fs_defs)
qed

section \<open>Construction\<close>



section \<open>The file system\<close>



section \<open>String-content conversion\<close>




text \<open>
  The \<^verbatim>\<open>with\<close> block stands before the \<^verbatim>\<open>try\<close>: when the write into the temporary file
  raises, the conversion is never started, the \<^verbatim>\<open>finally\<close> clause is never reached and
  the file, created empty, stays.
\<close>

lemma convert_from_string_write_raises:
  "NamedTemporaryFile e s txt_content = (Inl err, s0) \<Longrightarrow>
     convert_from_string e self s txt_content output_filename = (Inl err, s0)"
  by (simp add: convert_from_string_def)

lemma convert_from_string_write_raises_example:
  "convert_from_string writing_env a_converter [(''/tmp'', Dir)] [CHR 0xE9] None
     = (Inl (UnicodeEncodeError ''codec can't encode characters''),
        [(''/tmp/tmpk3x_9qzb.txt'', File []), (''/tmp'', Dir)])"
  by code_simp

lemma mkstemp_picks:
  "mkstemp s dir ns = Inr f \<Longrightarrow>
     \<exists>n \<in> set ns. f = os_path_join dir (''tmp'' @ n @ ''.txt'') \<and> \<not> os_path_exists s f"
  by (induction ns) (auto simp: Let_def split: if_splits)

lemma os_path_join_tmp:
  "\<exists>pd. (pd = [] \<or> last pd = CHR ''/'') \<and> (\<forall>x. os_path_join a (''tmp'' @ x) = pd @ ''tmp'' @ x)"
  by (cases "a = [] \<or> last a = CHR ''/''") (auto simp: os_path_join_def)

lemma os_path_basename_append:
  assumes "CHR ''/'' \<notin> set nm" and "pd = [] \<or> last pd = CHR ''/''"
  shows "os_path_basename (pd @ nm) = nm"
proof -
  have "takeWhile (\<lambda>c. c \<noteq> CHR ''/'') (rev pd) = []"
    using assms(2) by (cases pd rule: rev_cases) auto
  moreover have "takeWhile (\<lambda>c. c \<noteq> CHR ''/'') (rev nm @ rev pd)
      = rev nm @ takeWhile (\<lambda>c. c \<noteq> CHR ''/'') (rev pd)"
    by (rule takeWhile_append2) (use assms(1) in auto)
  ultimately show ?thesis
    by (simp add: os_path_basename_def)
qed

lemma os_path_dirname_append:
  assumes "CHR ''/'' \<notin> set nm"
  shows "os_path_dirname (pd @ nm) = os_path_dirname pd"
proof -
  have "dropWhile (\<lambda>c. c \<noteq> CHR ''/'') (rev nm @ rev pd) = dropWhile (\<lambda>c. c \<noteq> CHR ''/'') (rev pd)"
    by (rule dropWhile_append2) (use assms in auto)
  then show ?thesis
    by (simp add: os_path_dirname_def)
qed

lemma characters_no_sep: "set n \<subseteq> set characters \<Longrightarrow> CHR ''/'' \<notin> set n"
  by (auto simp: characters_def)

lemma finally_returns:
  "fst (convert_from_string_finally temp_file_path outcome) = Inr q \<Longrightarrow> fst outcome = Inr q"
  by (auto simp: convert_from_string_finally_def Let_def split: if_splits sum.splits)

lemma try_returns_label:
  assumes "fst (convert_from_string_try e self s temp_file_path (Some label)) = Inr q"
    and "label \<noteq> []"
  shows "q = hd (rsplit1 CHR ''.'' temp_file_path) @ ''_'' @ label @ ''.inkml''"
  using assms
  by (auto simp: convert_from_string_try_def Let_def split: prod.splits sum.splits)

text \<open>
  C9, as amended. For a label that is not empty and holds no slash, a path returned by
  string-content conversion lies in the directory of the temporary file, and its name is
  the temporary file's base name followed by an underscore, the label and \<^verbatim>\<open>.inkml\<close>.
\<close>

theorem convert_from_string_label:
  assumes "NamedTemporaryFile e s txt_content = (Inr temp_file_path, s0)"
    and "\<forall>n \<in> set (candidate_names e). set n \<subseteq> set characters"
    and "label \<noteq> []" and "CHR ''/'' \<notin> set label"
    and "fst (convert_from_string e self s txt_content (Some label)) = Inr q"
  shows "\<exists>base. os_path_basename temp_file_path = base @ ''.txt''
           \<and> os_path_basename q = base @ ''_'' @ label @ ''.inkml''
           \<and> os_path_dirname q = os_path_dirname temp_file_path
           \<and> q = os_path_join (gettempdir e) (base @ ''_'' @ label @ ''.inkml'')"
proof -
  from assms(1) have "mkstemp s (gettempdir e) (candidate_names e) = Inr temp_file_path"
    by (auto simp: NamedTemporaryFile_def split: if_splits sum.splits)
  then obtain n where n: "n \<in> set (candidate_names e)"
      and tmp: "temp_file_path = os_path_join (gettempdir e) (''tmp'' @ n @ ''.txt'')"
    using mkstemp_picks by blast
  obtain pd where pd: "pd = [] \<or> last pd = CHR ''/''"
      and j: "\<And>x. os_path_join (gettempdir e) (''tmp'' @ x) = pd @ ''tmp'' @ x"
    using os_path_join_tmp by blast
  have nsep: "CHR ''/'' \<notin> set n"
    using n assms(2) characters_no_sep by blast
  have tmp': "temp_file_path = (pd @ ''tmp'' @ n) @ CHR ''.'' # ''txt''"
    using tmp j [of "n @ ''.txt''"] by simp
  have cut: "hd (rsplit1 CHR ''.'' temp_file_path) = pd @ ''tmp'' @ n"
    unfolding tmp' by (subst rsplit1_last_sep) simp_all
  have "fst (convert_from_string_finally temp_file_path
               (convert_from_string_try e self s0 temp_file_path (Some label))) = Inr q"
    using assms(1,5) by (simp add: convert_from_string_def)
  then have "fst (convert_from_string_try e self s0 temp_file_path (Some label)) = Inr q"
    by (rule finally_returns)
  then have "q = hd (rsplit1 CHR ''.'' temp_file_path) @ ''_'' @ label @ ''.inkml''"
    using assms(3) by (rule try_returns_label)
  then have q: "q = pd @ ''tmp'' @ n @ ''_'' @ label @ ''.inkml''"
    by (simp add: cut)
  let ?base = "''tmp'' @ n"
  have b1: "os_path_basename temp_file_path = ?base @ ''.txt''"
    using os_path_basename_append [OF _ pd, of "?base @ ''.txt''"] nsep tmp' by simp
  have b2: "os_path_basename q = ?base @ ''_'' @ label @ ''.inkml''"
    using os_path_basename_append [OF _ pd, of "?base @ ''_'' @ label @ ''.inkml''"] nsep assms(4) q
    by simp
  have d: "os_path_dirname q = os_path_dirname temp_file_path"
    using os_path_dirname_append [of "?base @ ''_'' @ label @ ''.inkml''" pd]
      os_path_dirname_append [of "?base @ ''.txt''" pd] nsep assms(4) q tmp'
    by simp
  have jq: "q = os_path_join (gettempdir e) (?base @ ''_'' @ label @ ''.inkml'')"
    using j [of "n @ ''_'' @ label @ ''.inkml''"] q by simp
  show ?thesis
    using b1 b2 d jq by blast
qed

theorem convert_from_string_label_witness:
  "NamedTemporaryFile writing_env [(''/tmp'', Dir)] ''1 2''
     = (Inr ''/tmp/tmpk3x_9qzb.txt'', [(''/tmp/tmpk3x_9qzb.txt'', File ''1 2''), (''/tmp'', Dir)])
   \<and> list_all (\<lambda>n. set n \<subseteq> set characters) (candidate_names writing_env)
   \<and> ''sample'' \<noteq> [] \<and> CHR ''/'' \<notin> set ''sample''
   \<and> fst (convert_from_string writing_env a_converter [(''/tmp'', Dir)] ''1 2'' (Some ''sample''))
       = Inr ''/tmp/tmpk3x_9qzb_sample.inkml''
   \<and> os_path_basename ''/tmp/tmpk3x_9qzb.txt'' = ''tmpk3x_9qzb.txt''
   \<and> os_path_basename ''/tmp/tmpk3x_9qzb_sample.inkml'' = ''tmpk3x_9qzb_sample.inkml''
   \<and> os_path_dirname ''/tmp/tmpk3x_9qzb_sample.inkml'' = os_path_dirname ''/tmp/tmpk3x_9qzb.txt''
   \<and> (\<exists>base. os_path_basename ''/tmp/tmpk3x_9qzb.txt'' = base @ ''.txt''
           \<and> os_path_basename ''/tmp/tmpk3x_9qzb_sample.inkml'' = base @ ''_'' @ ''sample'' @ ''.inkml''
           \<and> ''/tmp/tmpk3x_9qzb_sample.inkml''
               = os_path_join (gettempdir writing_env) (base @ ''_'' @ ''sample'' @ ''.inkml''))"
proof -
  have t: "NamedTemporaryFile writing_env [(''/tmp'', Dir)] ''1 2''
     = (Inr ''/tmp/tmpk3x_9qzb.txt'', [(''/tmp/tmpk3x_9qzb.txt'', File ''1 2''), (''/tmp'', Dir)])"
    by code_simp
  have n: "list_all (\<lambda>n. set n \<subseteq> set characters) (candidate_names writing_env)"
    by code_simp
  then have n': "\<forall>n \<in> set (candidate_names writing_env). set n \<subseteq> set characters"
    by (simp add: list_all_iff)
  have l: "''sample'' \<noteq> []" "CHR ''/'' \<notin> set ''sample''"
    by simp_all
  have r: "fst (convert_from_string writing_env a_converter [(''/tmp'', Dir)] ''1 2'' (Some ''sample''))
       = Inr ''/tmp/tmpk3x_9qzb_sample.inkml''"
    by code_simp
  have b: "os_path_basename ''/tmp/tmpk3x_9qzb.txt'' = ''tmpk3x_9qzb.txt''"
    "os_path_basename ''/tmp/tmpk3x_9qzb_sample.inkml'' = ''tmpk3x_9qzb_sample.inkml''"
    "os_path_dirname ''/tmp/tmpk3x_9qzb_sample.inkml'' = os_path_dirname ''/tmp/tmpk3x_9qzb.txt''"
    by code_simp+
  show ?thesis
    using convert_from_string_label [OF t n' l r] t n l r b by blast
qed

text \<open>
  C9 as stated fails for two labels. The empty label is treated as no label: the
  name has no underscore. With a slash in the label, and a directory of the right name in
  place, the returned path lies outside the temporary directory.
\<close>

theorem convert_from_string_label_counterexample:
  "fst (convert_from_string writing_env a_converter [(''/tmp'', Dir)] ''1 2'' (Some ''''))
     = Inr ''/tmp/tmpk3x_9qzb.inkml''
   \<and> os_path_basename ''/tmp/tmpk3x_9qzb.inkml'' \<noteq> ''tmpk3x_9qzb'' @ ''_'' @ '''' @ ''.inkml''
   \<and> fst (convert_from_string writing_env a_converter
            [(''/tmp'', Dir), (''/tmp/tmpk3x_9qzb_sub'', Dir)] ''1 2'' (Some ''sub/x''))
     = Inr ''/tmp/tmpk3x_9qzb_sub/x.inkml''
   \<and> os_path_dirname ''/tmp/tmpk3x_9qzb_sub/x.inkml'' \<noteq> gettempdir writing_env
   \<and> os_path_basename ''/tmp/tmpk3x_9qzb_sub/x.inkml'' \<noteq> ''tmpk3x_9qzb'' @ ''_'' @ ''sub/x'' @ ''.inkml''"
  by code_simp

section \<open>Paths\<close>

lemma str_split_nonempty: "str_split sep s \<noteq> []"
  by (induction s) (auto split: list.splits)

lemma str_split_no_sep: "x \<in> set (str_split sep s) \<Longrightarrow> sep \<notin> set x"
proof (induction s arbitrary: x)
  case Nil
  then show ?case by simp
next
  case (Cons c cs)
  show ?case
  proof (cases "c = sep")
    case True
    with Cons show ?thesis by auto
  next
    case False
    obtain w ws where w: "str_split sep cs = w # ws"
      using str_split_nonempty [of sep cs] by (cases "str_split sep cs") auto
    with Cons False show ?thesis by auto
  qed
qed

lemma Path_tail_component:
  assumes "x \<in> set (tail (Path p))"
  shows "CHR ''/'' \<notin> set x" and "x \<noteq> []" and "x \<noteq> ''.''"
  using assms str_split_no_sep [of x "CHR ''/''"] by (auto simp: Path_def)

lemma Path_root: "root (Path p) = [] \<or> root (Path p) = ''/'' \<or> root (Path p) = ''//''"
  by (simp add: Path_def splitroot_def)

lemma str_join_snoc:
  "str_join sep (xs @ [x]) = (if xs = [] then x else str_join sep xs @ sep @ x)"
  by (induction sep xs rule: str_join.induct) auto

text \<open>The string of a path with a name is a directory prefix followed by the name.\<close>

lemma str_prefix_name:
  assumes "tail f \<noteq> []" and "root f = [] \<or> root f = ''/'' \<or> root f = ''//''"
  shows "\<exists>pd. (pd = [] \<or> last pd = CHR ''/'') \<and> str f = pd @ name f"
proof -
  have t: "tail f = butlast (tail f) @ [last (tail f)]"
    using assms(1) by simp
  have "str f = root f @ str_join ''/'' (butlast (tail f) @ [last (tail f)])"
    using assms(1) by (simp add: str_def)
  also have "\<dots> = (root f @ (if butlast (tail f) = [] then []
                              else str_join ''/'' (butlast (tail f)) @ ''/'')) @ name f"
    using assms(1) by (simp add: str_join_snoc name_def del: append_butlast_last_id)
  finally show ?thesis
    using assms(2) by (intro exI conjI) (assumption | auto)+
qed

lemma rfind_dot_txt: "rfind CHR ''.'' (stem @ ''.txt'') = int (length stem)"
  by (simp add: rfind_def)

lemma path_suffix_txt:
  assumes "name f = stem @ ''.txt''" and "stem \<noteq> []"
  shows "path_suffix f = ''.txt''"
  using assms by (simp add: path_suffix_def rfind_dot_txt)

lemma with_suffix_txt:
  assumes "name f = stem @ ''.txt''" and "stem \<noteq> []"
  shows "with_suffix f ''.inkml'' = Inr (f\<lparr>tail := butlast (tail f) @ [stem @ ''.inkml'']\<rparr>)"
  using assms by (simp add: with_suffix_def path_suffix_txt)

text \<open>
  C10, as amended. For a path whose final component ends in \<^verbatim>\<open>.txt\<close> and is longer than
  that, the two derivations of the output name agree: the name component of the string
  cut at its last dot with \<^verbatim>\<open>.inkml\<close> appended (\<^verbatim>\<open>convert_txt_to_inkml\<close>) is the name
  that \<^verbatim>\<open>with_suffix('.inkml')\<close> gives (\<^verbatim>\<open>batch_convert_directory\<close>).
\<close>

theorem output_names_agree:
  assumes "name (Path p) = stem @ ''.txt''" and "stem \<noteq> []"
  shows "\<exists>r. with_suffix (Path p) ''.inkml'' = Inr r
           \<and> name r = stem @ ''.inkml''
           \<and> os_path_basename (hd (rsplit1 CHR ''.'' (str (Path p))) @ ''.inkml'') = name r"
proof -
  let ?f = "Path p"
  have tl: "tail ?f \<noteq> []"
    using assms by (auto simp: name_def split: if_splits)
  then have "name ?f \<in> set (tail ?f)"
    by (simp add: name_def)
  then have nosep: "CHR ''/'' \<notin> set stem"
    using Path_tail_component(1) [of "name ?f" p] assms(1) by simp
  obtain pd where pd: "pd = [] \<or> last pd = CHR ''/''" and s: "str ?f = pd @ name ?f"
    using str_prefix_name [OF tl Path_root] by blast
  have "str ?f = (pd @ stem) @ CHR ''.'' # ''txt''"
    using s assms(1) by simp
  then have cut: "hd (rsplit1 CHR ''.'' (str ?f)) = pd @ stem"
    by (simp only: rsplit1_last_sep [of "CHR ''.''" "''txt''", simplified] list.sel)
  have b: "os_path_basename (hd (rsplit1 CHR ''.'' (str ?f)) @ ''.inkml'') = stem @ ''.inkml''"
    using os_path_basename_append [OF _ pd, of "stem @ ''.inkml''"] nosep by (simp add: cut)
  have w: "with_suffix ?f ''.inkml'' = Inr (?f\<lparr>tail := butlast (tail ?f) @ [stem @ ''.inkml'']\<rparr>)"
    using assms by (rule with_suffix_txt)
  show ?thesis
    using b w by (simp add: name_def)
qed

theorem output_names_agree_witness:
  "name (Path ''in/sub/c.v2.txt'') = ''c.v2'' @ ''.txt'' \<and> ''c.v2'' \<noteq> []
   \<and> with_suffix (Path ''in/sub/c.v2.txt'') ''.inkml'' = Inr \<lparr>root = [], tail = [''in'', ''sub'', ''c.v2.inkml'']\<rparr>
   \<and> os_path_basename (hd (rsplit1 CHR ''.'' (str (Path ''in/sub/c.v2.txt''))) @ ''.inkml'')
       = ''c.v2.inkml''"
proof -
  have n: "name (Path ''in/sub/c.v2.txt'') = ''c.v2'' @ ''.txt''"
    by code_simp
  have e: "''c.v2'' \<noteq> []"
    by simp
  have w: "with_suffix (Path ''in/sub/c.v2.txt'') ''.inkml''
             = Inr \<lparr>root = [], tail = [''in'', ''sub'', ''c.v2.inkml'']\<rparr>"
    by code_simp
  show ?thesis
    using output_names_agree [OF n e] n e w by (auto simp: name_def)
qed

text \<open>
  C10 as stated fails for the file named \<^verbatim>\<open>.txt\<close>, where the two disagree: pathlib sees
  a name without a suffix and appends, the string cut removes the whole name.
\<close>

theorem output_names_agree_counterexample:
  "name (Path ''in/.txt'') = ''.txt''
   \<and> with_suffix (Path ''in/.txt'') ''.inkml'' = Inr \<lparr>root = [], tail = [''in'', ''.txt.inkml'']\<rparr>
   \<and> name \<lparr>root = [], tail = [''in'', ''.txt.inkml'']\<rparr> = ''.txt.inkml''
   \<and> hd (rsplit1 CHR ''.'' (str (Path ''in/.txt''))) @ ''.inkml'' = ''in/.inkml''
   \<and> os_path_basename ''in/.inkml'' = ''.inkml''
   \<and> os_path_basename (hd (rsplit1 CHR ''.'' (str (Path ''in/.txt''))) @ ''.inkml'')
       \<noteq> name \<lparr>root = [], tail = [''in'', ''.txt.inkml'']\<rparr>"
  by code_simp

section \<open>Batch conversion\<close>







































text \<open>
  The output directory is flat: files of the same name from different directories are
  moved to the same path, the later one replacing the earlier, and the path is returned
  once for each.
\<close>

lemma batch_convert_directory_same_name:
  "batch_convert_directory twin_env a_converter twin_tree ''in'' (Some ''out'')
     = (Inr [''out/x.inkml'', ''out/x.inkml''], [],
        (''out/x.inkml'', File ''<ink/>'') # twin_tree)"
  by code_simp

end
